theory Spec2Isabelle
  imports Complex_Main
begin

section \<open>Values shared by both pages\<close>

text \<open>
  Both pages are React function components written in TypeScript. A component's
  \<open>useState\<close> cells become the fields of a record, an event handler becomes a function
  from the record to the updated record, and the remote service is an input: what each
  \<open>await\<close> of a handler produced is handed to the model as a value.

  A value caught by \<open>catch (err)\<close> is either an \<open>Error\<close> instance carrying a message or
  anything else; the handlers tell the two apart with \<open>err instanceof Error\<close>.
\<close>

datatype thrown = ErrorObj string | NonError

text \<open>An awaited promise either rejects (\<open>Inl\<close>) or fulfils (\<open>Inr\<close>).\<close>

type_synonym 'a promise = "thrown + 'a"

text \<open>
  The part of a fetch \<open>Response\<close> the handlers read: the status code, the body as
  \<open>response.text()\<close> gives it and the body as \<open>response.json()\<close> gives it (either read
  may reject). \<open>response.ok\<close> is true exactly for the status codes 200 to 299.
\<close>

record 'j Response =
  status_code :: nat
  body_text :: "string promise"
  body_json :: "'j promise"

definition ok :: "'j Response \<Rightarrow> bool" where
  "ok response = (200 \<le> status_code response \<and> status_code response \<le> 299)"

text \<open>
  What the remote calls of one handler run produce: the value of \<open>await getToken()\<close>
  and the value of \<open>await fetch(...)\<close>.
\<close>

record 'j remote =
  getToken :: "string option promise"
  fetch :: "'j Response promise"

text \<open>\<open>err instanceof Error ? err.message : 'Something went wrong'\<close>\<close>

fun catch_message :: "thrown \<Rightarrow> string" where
  "catch_message (ErrorObj message) = message"
| "catch_message NonError = ''Something went wrong''"

text \<open>\<open>String.prototype.startsWith\<close> with a search string and no position.\<close>

definition startsWith :: "string \<Rightarrow> string \<Rightarrow> bool" where
  "startsWith str search = (take (length search) str = search)"

text \<open>A string is truthy in a JavaScript condition exactly when it is not empty.\<close>

fun truthy :: "string option \<Rightarrow> bool" where
  "truthy None = False"
| "truthy (Some str) = (str \<noteq> [])"

section \<open>The upload page\<close>

datatype UploadState = Idle | Preview | Analyzing | Results | Calling | Error

text \<open>
  The numbers of a payload are JavaScript numbers that the pages store and display but
  never compute with; their type is the parameter \<open>'n\<close>.
\<close>

record 'n NegotiationStrategy =
  opening_price :: 'n
  target_price :: 'n
  walk_away_price :: 'n
  opening_script :: string
  counter_script :: string
  accept_script :: string
  walk_away_script :: string

record 'n PriceRange =
  low :: 'n
  fair :: 'n
  high :: 'n
  currency :: string

record 'n Platform =
  platform_name :: string
  avg_price :: 'n
  demand :: string
  time_to_sell_days :: 'n

record LocalStore =
  store_name :: string
  address :: string
  phone :: string
  specialty :: string

record 'n AnalysisResult =
  analysis_id :: string
  image_url :: string
  item_name :: string
  item_description :: string
  estimated_price_range :: "'n PriceRange"
  best_platform :: string
  platforms :: "'n Platform list"
  local_stores :: "LocalStore list"
  condition_tips :: "string list"
  confidence :: 'n
  negotiation_strategy :: "'n NegotiationStrategy option"

record 'n Coords =
  lat :: 'n
  lng :: 'n

text \<open>A browser \<open>File\<close>: its name, its MIME type and its bytes.\<close>

record File =
  file_name :: string
  file_type :: string
  file_bytes :: "nat list"

text \<open>
  An object URL is the string \<open>URL.createObjectURL\<close> returns. It is never empty, so
  \<open>if (preview)\<close> holds exactly when \<open>preview\<close> is not null; the model keeps the number
  that tells one object URL from another.
\<close>

datatype objurl = ObjectURL nat

text \<open>
  The state cells of \<open>HomePage\<close>, in the order of their \<open>useState\<close> calls, followed by
  the browser's registry of object URLs, which \<open>URL.createObjectURL\<close> and
  \<open>URL.revokeObjectURL\<close> write: the URLs that are live and the number of the next one.
\<close>

record 'n HomePage =
  state :: UploadState
  preview :: "objurl option"
  dragging :: bool
  currentFile :: "File option"
  analysisResult :: "'n AnalysisResult option"
  errorMessage :: "string option"
  coords :: "'n Coords option"
  jobId :: "string option"
  objectURLs :: "objurl set"
  nextObjectURL :: nat

definition initialHomePage :: "'n HomePage" where
  "initialHomePage =
     \<lparr>state = Idle, preview = None, dragging = False, currentFile = None,
      analysisResult = None, errorMessage = None, coords = None, jobId = None,
      objectURLs = {}, nextObjectURL = 0\<rparr>"

definition handleFile :: "File \<Rightarrow> 'n HomePage \<Rightarrow> 'n HomePage" where
  "handleFile file s =
     (if \<not> startsWith (file_type file) ''image/'' then s
      else
        let url = ObjectURL (nextObjectURL s) in
        s\<lparr>objectURLs := insert url (objectURLs s),
          nextObjectURL := Suc (nextObjectURL s),
          preview := Some url,
          currentFile := Some file,
          state := Preview\<rparr>)"

text \<open>
  \<open>onFileChange\<close> and \<open>onDrop\<close> receive the event's file list and take \<open>files?.[0]\<close>.
  \<open>onFileChange\<close> also empties the value of the input element, which is no state of the
  component.
\<close>

fun onFileChange :: "File list \<Rightarrow> 'n HomePage \<Rightarrow> 'n HomePage" where
  "onFileChange [] s = s"
| "onFileChange (file # rest) s = handleFile file s"

fun onDrop :: "File list \<Rightarrow> 'n HomePage \<Rightarrow> 'n HomePage" where
  "onDrop [] s = s\<lparr>dragging := False\<rparr>"
| "onDrop (file # rest) s = handleFile file (s\<lparr>dragging := False\<rparr>)"

definition reset :: "'n HomePage \<Rightarrow> 'n HomePage" where
  "reset s =
     (let s1 = (case preview s of
                  None \<Rightarrow> s
                | Some url \<Rightarrow> s\<lparr>objectURLs := objectURLs s - {url}\<rparr>)
      in s1\<lparr>preview := None,
            currentFile := None,
            analysisResult := None,
            errorMessage := None,
            state := Idle\<rparr>)"

text \<open>
  \<open>handleAnalyze\<close> in three parts: what it does before its first \<open>await\<close>, the value of its
  \<open>try\<close> block (the thrown value, or the parsed payload), and what it does once the block
  has finished. Between the first and the last part the handler writes no state.
\<close>

definition handleAnalyze_start :: "'n HomePage \<Rightarrow> 'n HomePage" where
  "handleAnalyze_start s = s\<lparr>state := Analyzing, errorMessage := None\<rparr>"

definition handleAnalyze_try :: "'j remote \<Rightarrow> 'j promise" where
  "handleAnalyze_try remote =
     (case getToken remote of
        Inl err \<Rightarrow> Inl err
      | Inr token \<Rightarrow>
          (case fetch remote of
             Inl err \<Rightarrow> Inl err
           | Inr response \<Rightarrow>
               if \<not> ok response then
                 (case body_text response of
                    Inl err \<Rightarrow> Inl err
                  | Inr body \<Rightarrow> Inl (ErrorObj (''Analysis failed: '' @ body)))
               else body_json response))"

fun handleAnalyze_settle :: "'n AnalysisResult promise \<Rightarrow> 'n HomePage \<Rightarrow> 'n HomePage" where
  "handleAnalyze_settle (Inr result) s = s\<lparr>analysisResult := Some result, state := Results\<rparr>"
| "handleAnalyze_settle (Inl err) s = s\<lparr>errorMessage := Some (catch_message err), state := Error\<rparr>"

text \<open>The handler run from its call to its end with nothing in between.\<close>

definition handleAnalyze :: "'n AnalysisResult remote \<Rightarrow> 'n HomePage \<Rightarrow> 'n HomePage" where
  "handleAnalyze remote s =
     (case currentFile s of
        None \<Rightarrow> s
      | Some file \<Rightarrow> handleAnalyze_settle (handleAnalyze_try remote) (handleAnalyze_start s))"

text \<open>
  \<open>handleNegotiate\<close> the same way. It writes nothing before its first \<open>await\<close>; its
  \<open>try\<close> block gives the \<open>job_id\<close> of the parsed reply.
\<close>

definition handleNegotiate_guard :: "'n HomePage \<Rightarrow> bool" where
  "handleNegotiate_guard s =
     (case analysisResult s of
        None \<Rightarrow> False
      | Some result \<Rightarrow> truthy (Some (analysis_id result)))"

definition handleNegotiate_try :: "'j remote \<Rightarrow> 'j promise" where
  "handleNegotiate_try remote =
     (case getToken remote of
        Inl err \<Rightarrow> Inl err
      | Inr token \<Rightarrow>
          (case fetch remote of
             Inl err \<Rightarrow> Inl err
           | Inr res \<Rightarrow>
               if \<not> ok res then
                 (case body_text res of
                    Inl err \<Rightarrow> Inl err
                  | Inr body \<Rightarrow> Inl (ErrorObj body))
               else body_json res))"

fun handleNegotiate_settle :: "string promise \<Rightarrow> 'n HomePage \<Rightarrow> 'n HomePage" where
  "handleNegotiate_settle (Inr job_id) s = s\<lparr>jobId := Some job_id, state := Calling\<rparr>"
| "handleNegotiate_settle (Inl err) s = s\<lparr>errorMessage := Some (catch_message err), state := Error\<rparr>"

definition handleNegotiate :: "string remote \<Rightarrow> 'n HomePage \<Rightarrow> 'n HomePage" where
  "handleNegotiate remote s =
     (if \<not> handleNegotiate_guard s then s
      else handleNegotiate_settle (handleNegotiate_try remote) s)"

text \<open>The \<open>onClick\<close> of the error stage's first button: \<open>() => setState('preview')\<close>.\<close>

definition tryAgain :: "'n HomePage \<Rightarrow> 'n HomePage" where
  "tryAgain s = s\<lparr>state := Preview\<rparr>"

text \<open>The callback given to \<open>getCurrentPosition\<close>.\<close>

definition onPosition :: "'n Coords \<Rightarrow> 'n HomePage \<Rightarrow> 'n HomePage" where
  "onPosition pos s = s\<lparr>coords := Some pos\<rparr>"

subsection \<open>What the upload page renders\<close>

text \<open>The template literal \<open>`/offers?job_id=${jobId}`\<close>; a null \<open>jobId\<close> prints as \<open>null\<close>.\<close>

fun offers_href :: "string option \<Rightarrow> string" where
  "offers_href None = ''/offers?job_id=null''"
| "offers_href (Some job) = ''/offers?job_id='' @ job"

text \<open>
  The block of the page below its header, one constructor for each conditional block of
  the JSX with the state it displays: the drop zone (with its hover flag), the preview
  image, the spinner, the results (rendered only when \<open>analysisResult\<close> is not null), the
  link to the offers page, and the error text.
\<close>

datatype 'n home_view =
    IdleView bool
  | PreviewView "objurl option"
  | AnalyzingView "objurl option"
  | ResultsView "objurl option" "'n AnalysisResult"
  | CallingView string
  | ErrorView "string option"
  | NoView

definition render :: "'n HomePage \<Rightarrow> 'n home_view" where
  "render s =
     (case state s of
        Idle \<Rightarrow> IdleView (dragging s)
      | Preview \<Rightarrow> PreviewView (preview s)
      | Analyzing \<Rightarrow> AnalyzingView (preview s)
      | Results \<Rightarrow>
          (case analysisResult s of
             None \<Rightarrow> NoView
           | Some result \<Rightarrow> ResultsView (preview s) result)
      | Calling \<Rightarrow> CallingView (offers_href (jobId s))
      | Error \<Rightarrow> ErrorView (errorMessage s))"

subsection \<open>The upload page as an event-driven system\<close>

text \<open>
  The page runs on the browser's single thread: a user event runs its handler up to the
  handler's first \<open>await\<close>, and a request that is under way finishes in an event of its
  own, at which the rest of the handler runs. A user event can only happen on a control
  that the current rendering contains.
\<close>

datatype 'n event =
    FileChange "File list"
  | DragOver
  | DragLeave
  | Drop "File list"
  | ClickAnalyze
  | ClickNegotiate
  | ClickReset
  | ClickTryAgain
  | Position "'n Coords"
  | AnalyzeSettles "'n AnalysisResult remote"
  | NegotiateSettles "string remote"

text \<open>The controls each block of the JSX contains.\<close>

fun offered :: "'n home_view \<Rightarrow> 'n event \<Rightarrow> bool" where
  "offered (IdleView d) (FileChange files) = True"
| "offered (IdleView d) DragOver = True"
| "offered (IdleView d) DragLeave = True"
| "offered (IdleView d) (Drop files) = True"
| "offered (PreviewView url) ClickAnalyze = True"
| "offered (PreviewView url) ClickReset = True"
| "offered (ResultsView url result) ClickNegotiate = True"
| "offered (ResultsView url result) ClickReset = True"
| "offered (CallingView href) ClickReset = True"
| "offered (ErrorView message) ClickTryAgain = True"
| "offered (ErrorView message) ClickReset = True"
| "offered view ev = False"

text \<open>
  The page with the requests that are under way: how many runs of \<open>handleAnalyze\<close> and of
  \<open>handleNegotiate\<close> wait for their reply, and whether the position callback of the
  mount effect is still to come.
\<close>

record 'n app =
  page :: "'n HomePage"
  analyzeCalls :: nat
  negotiateCalls :: nat
  positionAwaited :: bool

definition initialApp :: "'n app" where
  "initialApp =
     \<lparr>page = initialHomePage, analyzeCalls = 0, negotiateCalls = 0, positionAwaited = True\<rparr>"

fun dispatch :: "'n event \<Rightarrow> 'n app \<Rightarrow> 'n app" where
  "dispatch (FileChange files) a = a\<lparr>page := onFileChange files (page a)\<rparr>"
| "dispatch DragOver a = a\<lparr>page := (page a)\<lparr>dragging := True\<rparr>\<rparr>"
| "dispatch DragLeave a = a\<lparr>page := (page a)\<lparr>dragging := False\<rparr>\<rparr>"
| "dispatch (Drop files) a = a\<lparr>page := onDrop files (page a)\<rparr>"
| "dispatch ClickAnalyze a =
     (case currentFile (page a) of
        None \<Rightarrow> a
      | Some file \<Rightarrow> a\<lparr>page := handleAnalyze_start (page a), analyzeCalls := Suc (analyzeCalls a)\<rparr>)"
| "dispatch ClickNegotiate a =
     (if \<not> handleNegotiate_guard (page a) then a
      else a\<lparr>negotiateCalls := Suc (negotiateCalls a)\<rparr>)"
| "dispatch ClickReset a = a\<lparr>page := reset (page a)\<rparr>"
| "dispatch ClickTryAgain a = a\<lparr>page := tryAgain (page a)\<rparr>"
| "dispatch (Position pos) a = a\<lparr>page := onPosition pos (page a), positionAwaited := False\<rparr>"
| "dispatch (AnalyzeSettles remote) a =
     a\<lparr>page := handleAnalyze_settle (handleAnalyze_try remote) (page a),
       analyzeCalls := analyzeCalls a - 1\<rparr>"
| "dispatch (NegotiateSettles remote) a =
     a\<lparr>page := handleNegotiate_settle (handleNegotiate_try remote) (page a),
       negotiateCalls := negotiateCalls a - 1\<rparr>"

fun possible :: "'n event \<Rightarrow> 'n app \<Rightarrow> bool" where
  "possible (Position pos) a = positionAwaited a"
| "possible (AnalyzeSettles remote) a = (0 < analyzeCalls a)"
| "possible (NegotiateSettles remote) a = (0 < negotiateCalls a)"
| "possible ev a = offered (render (page a)) ev"

text \<open>One event, \<open>None\<close> when it cannot happen in this state; then a sequence of events.\<close>

definition step :: "'n event \<Rightarrow> 'n app \<Rightarrow> 'n app option" where
  "step ev a = (if possible ev a then Some (dispatch ev a) else None)"

fun run :: "'n event list \<Rightarrow> 'n app \<Rightarrow> 'n app option" where
  "run [] a = Some a"
| "run (ev # evs) a = (case step ev a of None \<Rightarrow> None | Some a' \<Rightarrow> run evs a')"

section \<open>The offers page\<close>

record 'n OfferResult =
  offer_id :: string
  offer_store_name :: string
  store_address :: string
  store_phone :: string
  store_specialty :: string
  accepted :: bool
  agreed_price :: "'n option"
  call_summary :: "string option"

record 'n OffersData =
  job_id :: string
  status :: string
  offers_item_name :: string
  offers_image_url :: string
  offers :: "'n OfferResult list"

datatype PageState = Loading | Ready | Failed

text \<open>
  \<open>jobParam\<close> is \<open>searchParams.get('job_id')\<close>; the other fields are the state cells of
  \<open>OffersContent\<close> (\<open>offersError\<close> is its \<open>errorMessage\<close>).
\<close>

record 'n OffersContent =
  jobParam :: "string option"
  pageState :: PageState
  data :: "'n OffersData option"
  offersError :: "string option"
  acceptedOfferId :: "string option"

definition initialOffersContent :: "string option \<Rightarrow> 'n OffersContent" where
  "initialOffersContent job =
     \<lparr>jobParam = job, pageState = Loading, data = None, offersError = None,
      acceptedOfferId = None\<rparr>"

definition fetchOffers_try :: "'j remote \<Rightarrow> 'j promise" where
  "fetchOffers_try remote =
     (case getToken remote of
        Inl err \<Rightarrow> Inl err
      | Inr token \<Rightarrow>
          (case fetch remote of
             Inl err \<Rightarrow> Inl err
           | Inr res \<Rightarrow>
               if \<not> ok res then
                 (case body_text res of
                    Inl err \<Rightarrow> Inl err
                  | Inr body \<Rightarrow> Inl (ErrorObj body))
               else body_json res))"

definition fetchOffers :: "'n OffersData remote \<Rightarrow> 'n OffersContent \<Rightarrow> 'n OffersContent" where
  "fetchOffers remote s =
     (if \<not> truthy (jobParam s) then
        s\<lparr>offersError := Some ''No job ID provided.'', pageState := Failed\<rparr>
      else
        (case fetchOffers_try remote of
           Inr json \<Rightarrow> s\<lparr>data := Some json, pageState := Ready\<rparr>
         | Inl err \<Rightarrow> s\<lparr>offersError := Some (catch_message err), pageState := Failed\<rparr>))"

text \<open>
  \<open>Array.prototype.slice(start, end)\<close>: a negative index counts from the end of the
  array, and both indices are clamped to the array.
\<close>

definition slice :: "int \<Rightarrow> int \<Rightarrow> 'a list \<Rightarrow> 'a list" where
  "slice start fin xs =
     (let len = int (length xs);
          k = (if start < 0 then max (len + start) 0 else min start len);
          final = (if fin < 0 then max (len + fin) 0 else min fin len)
      in take (nat (final - k)) (drop (nat k) xs))"

text \<open>\<open>data?.offers.filter(...) ?? []\<close>\<close>

definition offers_where :: "('n OfferResult \<Rightarrow> bool) \<Rightarrow> 'n OffersContent \<Rightarrow> 'n OfferResult list" where
  "offers_where keep s = (case data s of None \<Rightarrow> [] | Some d \<Rightarrow> filter keep (offers d))"

definition accepted_shown :: "'n OffersContent \<Rightarrow> 'n OfferResult list" where
  "accepted_shown s = slice 0 2 (offers_where (\<lambda>offer. accepted offer) s)"

definition declined_shown :: "'n OffersContent \<Rightarrow> 'n OfferResult list" where
  "declined_shown s = slice 0 1 (offers_where (\<lambda>offer. \<not> accepted offer) s)"

text \<open>
  The block the offers page shows below its header: the spinner, the error panel, the
  "calls still in progress" card with its refresh button, or the two lists of offers.
  \<open>data?.status\<close> of a null \<open>data\<close> is undefined, which is not \<open>'done'\<close>.
\<close>

datatype 'n offers_view =
    LoadingView
  | ErrorPanel "string option"
  | InProgressView
  | DoneView "'n OfferResult list" "'n OfferResult list"

definition is_done :: "'n OffersContent \<Rightarrow> bool" where
  "is_done s = (case data s of None \<Rightarrow> False | Some d \<Rightarrow> status d = ''done'')"

definition render_offers :: "'n OffersContent \<Rightarrow> 'n offers_view" where
  "render_offers s =
     (case pageState s of
        Loading \<Rightarrow> LoadingView
      | Failed \<Rightarrow> ErrorPanel (offersError s)
      | Ready \<Rightarrow>
          if is_done s then DoneView (accepted_shown s) (declined_shown s)
          else InProgressView)"

section \<open>Concrete inputs\<close>

text \<open>
  The inputs the closed theorems below are evaluated at: an image file and a file that
  is no image, the payloads of the two end-to-end scenarios, and a service whose call
  returns a given status code, body text and parsed body to a user that is not signed in.
\<close>

definition example_photo :: File where
  "example_photo =
     \<lparr>file_name = ''lamp.png'', file_type = ''image/png'', file_bytes = [137, 80, 78, 71]\<rparr>"

definition example_document :: File where
  "example_document =
     \<lparr>file_name = ''notes.pdf'', file_type = ''application/pdf'', file_bytes = [37, 80, 68, 70]\<rparr>"

definition example_analysis :: "real AnalysisResult" where
  "example_analysis =
     \<lparr>analysis_id = ''a1'', image_url = [], item_name = ''Lamp'', item_description = [],
      estimated_price_range = \<lparr>low = 200, fair = 240, high = 280, currency = ''USD''\<rparr>,
      best_platform = ''eBay'', platforms = [], local_stores = [], condition_tips = [],
      confidence = 0.8, negotiation_strategy = None\<rparr>"

definition replies :: "nat \<Rightarrow> string \<Rightarrow> 'j promise \<Rightarrow> 'j remote" where
  "replies code body parsed =
     \<lparr>getToken = Inr None,
      fetch = Inr \<lparr>status_code = code, body_text = Inr body, body_json = parsed\<rparr>\<rparr>"

definition analysis_ok :: "real AnalysisResult remote" where
  "analysis_ok = replies 200 [] (Inr example_analysis)"

definition analysis_unavailable :: "real AnalysisResult remote" where
  "analysis_unavailable = replies 500 ''model unavailable'' (Inl NonError)"

definition job_started :: "string remote" where
  "job_started = replies 200 [] (Inr ''j1'')"

definition example_preview :: "real HomePage" where
  "example_preview = handleFile example_photo initialHomePage"

definition example_results :: "real HomePage" where
  "example_results = handleAnalyze analysis_ok example_preview"

definition example_failed :: "real HomePage" where
  "example_failed = handleAnalyze analysis_unavailable example_preview"

definition showing :: "'n HomePage \<Rightarrow> 'n app" where
  "showing s = initialApp\<lparr>page := s\<rparr>"

text \<open>Three sessions of the upload page, each from the first rendering on.\<close>

definition reset_after_calling :: "real app option" where
  "reset_after_calling =
     run [FileChange [example_photo], ClickAnalyze, AnalyzeSettles analysis_ok,
          ClickNegotiate, NegotiateSettles job_started, ClickReset] initialApp"

definition reset_during_negotiate :: "real app option" where
  "reset_during_negotiate =
     run [FileChange [example_photo], ClickAnalyze, AnalyzeSettles analysis_ok,
          ClickNegotiate, ClickReset, NegotiateSettles job_started] initialApp"

definition reset_during_analyze :: "real app option" where
  "reset_during_analyze =
     run [FileChange [example_photo], ClickAnalyze, AnalyzeSettles analysis_ok,
          ClickNegotiate, ClickReset, FileChange [example_photo], ClickAnalyze,
          NegotiateSettles job_started, ClickReset, AnalyzeSettles analysis_ok] initialApp"

definition example_offer :: "string \<Rightarrow> bool \<Rightarrow> real option \<Rightarrow> real OfferResult" where
  "example_offer ident acc price =
     \<lparr>offer_id = ident, offer_store_name = ''Store '' @ ident, store_address = [],
      store_phone = [], store_specialty = [], accepted = acc, agreed_price = price,
      call_summary = None\<rparr>"

definition example_snapshot :: "string \<Rightarrow> real OfferResult list \<Rightarrow> real OffersData" where
  "example_snapshot st os =
     \<lparr>job_id = ''j1'', status = st, offers_item_name = ''Lamp'', offers_image_url = [],
      offers = os\<rparr>"

definition spec_offers :: "real OfferResult list" where
  "spec_offers =
     [example_offer ''s1'' True (Some 300), example_offer ''s2'' False None,
      example_offer ''s3'' True (Some 450)]"

definition three_accepted :: "real OfferResult list" where
  "three_accepted =
     [example_offer ''s1'' True (Some 300), example_offer ''s2'' True (Some 450),
      example_offer ''s3'' True (Some 500)]"

definition five_offers :: "real OfferResult list" where
  "five_offers =
     [example_offer ''s1'' False None, example_offer ''s2'' True (Some 300),
      example_offer ''s3'' True (Some 450), example_offer ''s4'' False None,
      example_offer ''s5'' True (Some 500)]"

definition offers_page_after :: "real OffersData \<Rightarrow> real OffersContent" where
  "offers_page_after d =
     fetchOffers (replies 200 [] (Inr d)) (initialOffersContent (Some ''j1''))"

section \<open>Evaluation rules\<close>

lemmas example_defs = example_photo_def example_document_def example_analysis_def replies_def
  analysis_ok_def analysis_unavailable_def job_started_def example_preview_def
  example_results_def example_failed_def showing_def

lemmas handler_defs = handleFile_def reset_def handleAnalyze_def handleAnalyze_start_def
  handleAnalyze_try_def handleNegotiate_def handleNegotiate_guard_def handleNegotiate_try_def
  tryAgain_def onPosition_def ok_def startsWith_def render_def initialHomePage_def Let_def

lemmas run_defs = step_def initialApp_def reset_after_calling_def reset_during_negotiate_def
  reset_during_analyze_def

lemmas offers_defs = example_offer_def example_snapshot_def spec_offers_def three_accepted_def
  five_offers_def offers_page_after_def replies_def fetchOffers_def fetchOffers_try_def
  initialOffersContent_def ok_def

section \<open>The upload page: capture, analysis, negotiation, retry and reset\<close>

text \<open>
  C4: a file whose MIME type does not begin with \<open>image/\<close> is ignored by the capture
  handler. \<open>handleFile\<close> returns the state it was given, so the stage, the preview handle,
  the registry of object URLs and the error message are what they were; the same holds
  when the file comes through the file picker or the camera input (\<open>onFileChange\<close>), and
  when it is dropped (\<open>onDrop\<close>) the only cell written is the hover flag of the drop zone.
\<close>

theorem non_image_file_ignored:
  assumes "\<not> startsWith (file_type file) ''image/''"
  shows "handleFile file s = s
    \<and> onFileChange [file] s = s
    \<and> onDrop [file] s = s\<lparr>dragging := False\<rparr>"
  using assms by (simp add: handleFile_def)

theorem non_image_file_ignored_witness:
  "\<not> startsWith (file_type example_document) ''image/''
   \<and> handleFile example_document example_preview = example_preview
   \<and> state (onDrop [example_document] example_preview) = Preview
   \<and> preview (onDrop [example_document] example_preview) = Some (ObjectURL 0)
   \<and> errorMessage (onDrop [example_document] example_preview) = None"
  using non_image_file_ignored [of example_document example_preview]
  by (simp add: example_defs handler_defs)

text \<open>
  C2: when the analyze call succeeds (the token and the request resolve, the status is
  2xx and the body parses), the stage afterwards is \<open>Results\<close> and the stored
  AnalysisResult is the parsed payload itself; the handler has written the stage, the
  error message and the AnalysisResult and nothing else. The last part of the handler
  stores the payload whatever state it finds.
\<close>

theorem analyze_success_stores_payload:
  assumes "currentFile s = Some file"
    and "getToken remote = Inr token"
    and "fetch remote = Inr response"
    and "ok response"
    and "body_json response = Inr payload"
  shows "handleAnalyze remote s
      = s\<lparr>state := Results, errorMessage := None, analysisResult := Some payload\<rparr>
    \<and> state (handleAnalyze remote s) = Results
    \<and> analysisResult (handleAnalyze remote s) = Some payload
    \<and> render (handleAnalyze remote s) = ResultsView (preview s) payload
    \<and> analysisResult (handleAnalyze_settle (handleAnalyze_try remote) t) = Some payload
    \<and> state (handleAnalyze_settle (handleAnalyze_try remote) t) = Results"
  using assms
  by (simp add: handleAnalyze_def handleAnalyze_try_def handleAnalyze_start_def render_def)

theorem analyze_success_stores_payload_witness:
  "currentFile example_preview = Some example_photo
   \<and> ok \<lparr>status_code = 200, body_text = Inr [], body_json = Inr example_analysis\<rparr>
   \<and> state (handleAnalyze analysis_ok example_preview) = Results
   \<and> analysisResult (handleAnalyze analysis_ok example_preview) = Some example_analysis"
  using analyze_success_stores_payload [of example_preview example_photo analysis_ok None
      "\<lparr>status_code = 200, body_text = Inr [], body_json = Inr example_analysis\<rparr>"
      example_analysis example_preview]
  by (simp add: example_defs handler_defs)

text \<open>
  C3, as stated, fails: for the HTTP 500 reply with body \<open>model unavailable\<close> the page
  enters the error stage, but the message is \<open>Analysis failed: model unavailable\<close>, not
  the body text.
\<close>

theorem analyze_message_is_body_counterexample:
  "\<not> ok \<lparr>status_code = 500, body_text = Inr ''model unavailable'',
          body_json = Inl NonError :: real AnalysisResult promise\<rparr>
   \<and> state (handleAnalyze analysis_unavailable example_preview) = Error
   \<and> errorMessage (handleAnalyze analysis_unavailable example_preview)
       = Some ''Analysis failed: model unavailable''
   \<and> errorMessage (handleAnalyze analysis_unavailable example_preview)
       \<noteq> Some ''model unavailable''"
  by (simp add: example_defs handler_defs)

text \<open>
  C3, amended: for every reply of \<open>/api/analyze\<close> whose status is not 2xx and whose body
  text can be read, the page enters the error stage and the message it displays is
  \<open>Analysis failed: \<close> followed by the body text.
\<close>

theorem analyze_failure_message:
  assumes "currentFile s = Some file"
    and "getToken remote = Inr token"
    and "fetch remote = Inr response"
    and "\<not> ok response"
    and "body_text response = Inr body"
  shows "state (handleAnalyze remote s) = Error
    \<and> errorMessage (handleAnalyze remote s) = Some (''Analysis failed: '' @ body)
    \<and> render (handleAnalyze remote s) = ErrorView (Some (''Analysis failed: '' @ body))"
  using assms
  by (simp add: handleAnalyze_def handleAnalyze_try_def handleAnalyze_start_def render_def)

theorem analyze_failure_message_witness:
  "currentFile example_preview = Some example_photo
   \<and> \<not> ok \<lparr>status_code = 500, body_text = Inr ''model unavailable'',
            body_json = Inl NonError :: real AnalysisResult promise\<rparr>
   \<and> render (handleAnalyze analysis_unavailable example_preview)
       = ErrorView (Some ''Analysis failed: model unavailable'')"
  using analyze_failure_message [of example_preview example_photo analysis_unavailable None
      "\<lparr>status_code = 500, body_text = Inr ''model unavailable'', body_json = Inl NonError\<rparr>"
      "''model unavailable''"]
  by (simp add: example_defs handler_defs)

text \<open>
  C6: negotiation requested in the results stage, with an AnalysisResult whose
  \<open>analysis_id\<close> is not empty, and answered successfully with \<open>{job_id: j}\<close>, stores \<open>j\<close>
  as the job handle and moves to the calling stage, where the link to the offers page
  points to \<open>/offers?job_id=j\<close>. Nothing else of the state is written.
\<close>

theorem negotiate_success_links_job:
  assumes "state s = Results"
    and "analysisResult s = Some result"
    and "analysis_id result \<noteq> []"
    and "getToken remote = Inr token"
    and "fetch remote = Inr res"
    and "ok res"
    and "body_json res = Inr j"
  shows "handleNegotiate remote s = s\<lparr>jobId := Some j, state := Calling\<rparr>
    \<and> jobId (handleNegotiate remote s) = Some j
    \<and> state (handleNegotiate remote s) = Calling
    \<and> render (handleNegotiate remote s) = CallingView (''/offers?job_id='' @ j)"
  using assms
  by (simp add: handleNegotiate_def handleNegotiate_guard_def handleNegotiate_try_def render_def)

theorem negotiate_success_links_job_witness:
  "state example_results = Results
   \<and> analysisResult example_results = Some example_analysis
   \<and> jobId (handleNegotiate job_started example_results) = Some ''j1''
   \<and> render (handleNegotiate job_started example_results) = CallingView ''/offers?job_id=j1''"
  using negotiate_success_links_job [of example_results example_analysis job_started None
      "\<lparr>status_code = 200, body_text = Inr [], body_json = Inr ''j1''\<rparr>" "''j1''"]
  by (simp add: example_defs handler_defs)

text \<open>
  C9: in the error stage the retry button is offered, and its transition writes the
  stage and nothing else. After a failed analysis and a retry the page is in the preview
  stage with the file, the preview handle and every other cell it had before the failure;
  only the error message of the failure is still stored.
\<close>

theorem retry_keeps_image:
  assumes "state (page a) = Error"
    and "currentFile s = Some file"
    and "handleAnalyze_try remote = Inl err"
  shows "step ClickTryAgain a = Some (a\<lparr>page := (page a)\<lparr>state := Preview\<rparr>\<rparr>)
    \<and> state (handleAnalyze remote s) = Error
    \<and> tryAgain (handleAnalyze remote s)
        = s\<lparr>errorMessage := Some (catch_message err), state := Preview\<rparr>
    \<and> currentFile (tryAgain (handleAnalyze remote s)) = Some file
    \<and> preview (tryAgain (handleAnalyze remote s)) = preview s
    \<and> objectURLs (tryAgain (handleAnalyze remote s)) = objectURLs s"
  using assms
  by (simp add: step_def render_def tryAgain_def handleAnalyze_def handleAnalyze_start_def)

theorem retry_keeps_image_witness:
  "state (page (showing example_failed)) = Error
   \<and> map_option page (step ClickTryAgain (showing example_failed))
       = Some (example_preview\<lparr>errorMessage := Some ''Analysis failed: model unavailable''\<rparr>)
   \<and> currentFile (tryAgain example_failed) = Some example_photo
   \<and> preview (tryAgain example_failed) = Some (ObjectURL 0)"
  using retry_keeps_image [of "showing example_failed" example_preview example_photo
      analysis_unavailable "ErrorObj ''Analysis failed: model unavailable''"]
  by (simp add: example_defs handler_defs step_def initialApp_def)

text \<open>
  What \<open>reset\<close> does in every state: it revokes the preview handle and clears the
  image, the AnalysisResult and the error message; the job handle and the coordinates
  are not among the cells it writes.
\<close>

lemma reset_effect:
  "state (reset s) = Idle \<and> preview (reset s) = None \<and> currentFile (reset s) = None
   \<and> analysisResult (reset s) = None \<and> errorMessage (reset s) = None
   \<and> jobId (reset s) = jobId s \<and> coords (reset s) = coords s
   \<and> objectURLs (reset s)
       = (case preview s of None \<Rightarrow> objectURLs s | Some url \<Rightarrow> objectURLs s - {url})"
  by (simp add: reset_def Let_def split: option.splits)

text \<open>
  C1: reset is meant to leave no job handle. On the code it does not: in the session
  that analyses a photo, starts a negotiation that returns the job \<open>j1\<close> and then resets
  from the calling stage, the page is back in the idle stage with no image, no live
  object URL, no AnalysisResult and no error message, but its job handle is still \<open>j1\<close>,
  whereas a reset of the first rendering has none.
\<close>

theorem reset_leaves_job_handle:
  "map_option (state \<circ> page) reset_after_calling = Some Idle
   \<and> map_option (preview \<circ> page) reset_after_calling = Some None
   \<and> map_option (currentFile \<circ> page) reset_after_calling = Some None
   \<and> map_option (objectURLs \<circ> page) reset_after_calling = Some {}
   \<and> map_option (analysisResult \<circ> page) reset_after_calling = Some None
   \<and> map_option (errorMessage \<circ> page) reset_after_calling = Some None
   \<and> map_option (jobId \<circ> page) reset_after_calling = Some (Some ''j1'')
   \<and> jobId (reset (initialHomePage :: real HomePage)) = None"
  by (simp add: example_defs handler_defs run_defs)

text \<open>
  C8, as stated, fails. A negotiate request leaves the page in the results stage, whose
  reset button stays available; in the first session the user resets while the request
  is under way, and the reply that arrives afterwards moves the page from the idle stage
  to the calling stage. In the second session a late negotiate reply takes the page out
  of the analyzing stage while an analyze request is under way; the user resets, and
  the analysis that arrives afterwards is stored and shown with no image held.
\<close>

theorem late_reply_discarded_counterexample:
  "map_option (state \<circ> page) reset_during_negotiate = Some Calling
   \<and> map_option (jobId \<circ> page) reset_during_negotiate = Some (Some ''j1'')
   \<and> map_option (state \<circ> page) reset_during_analyze = Some Results
   \<and> map_option (analysisResult \<circ> page) reset_during_analyze = Some (Some example_analysis)
   \<and> map_option (currentFile \<circ> page) reset_during_analyze = Some None"
  by (simp add: example_defs handler_defs run_defs)

text \<open>
  C8, amended: the page has no guard against late replies. The analyzing stage offers
  no reset; but when the user resets in the results stage while a negotiate request is
  under way, the reply that arrives afterwards is applied to the state the reset left:
  the stage becomes calling or error instead of staying idle, while the AnalysisResult,
  the file and the preview handle stay cleared.
\<close>

theorem late_negotiate_reply_applied:
  assumes "render (page a) = ResultsView url result"
    and "analysis_id result \<noteq> []"
    and "state (page b) = Analyzing"
  shows "step ClickReset b = None
    \<and> (\<exists>a'. run [ClickNegotiate, ClickReset, NegotiateSettles remote] a = Some a'
          \<and> page a' = handleNegotiate_settle (handleNegotiate_try remote) (reset (page a))
          \<and> (state (page a') = Calling \<or> state (page a') = Error)
          \<and> analysisResult (page a') = None
          \<and> currentFile (page a') = None
          \<and> preview (page a') = None)"
proof -
  from assms(1) have res: "analysisResult (page a) = Some result"
    by (auto simp: render_def split: UploadState.splits option.splits)
  have guard: "handleNegotiate_guard (page a)"
    using res assms(2) by (simp add: handleNegotiate_guard_def)
  have "step ClickReset b = None"
    using assms(3) by (simp add: step_def render_def)
  moreover have "render (reset (page a)) = IdleView (dragging (page a))"
    by (simp add: reset_def render_def Let_def split: option.splits)
  moreover have "state (handleNegotiate_settle out (reset (page a))) = Calling
      \<or> state (handleNegotiate_settle out (reset (page a))) = Error" for out :: "string promise"
    by (cases out) simp_all
  moreover have "analysisResult (handleNegotiate_settle out (reset (page a))) = None
      \<and> currentFile (handleNegotiate_settle out (reset (page a))) = None
      \<and> preview (handleNegotiate_settle out (reset (page a))) = None" for out :: "string promise"
    by (cases out) (simp_all add: reset_def Let_def split: option.splits)
  ultimately show ?thesis
    using assms(1) guard by (simp add: step_def)
qed

theorem late_negotiate_reply_applied_witness:
  "render (page (showing example_results)) = ResultsView (Some (ObjectURL 0)) example_analysis
   \<and> state (page (showing (handleAnalyze_start example_preview))) = Analyzing
   \<and> step ClickReset (showing (handleAnalyze_start example_preview)) = None
   \<and> map_option (state \<circ> page)
        (run [ClickNegotiate, ClickReset, NegotiateSettles job_started] (showing example_results))
       = Some Calling"
  using late_negotiate_reply_applied [of "showing example_results" "Some (ObjectURL 0)"
      example_analysis "showing (handleAnalyze_start example_preview)" job_started]
  by (simp add: example_defs handler_defs step_def initialApp_def)

section \<open>The offers page\<close>

lemma slice_from_0: "0 \<le> n \<Longrightarrow> slice 0 n xs = take (nat n) xs"
  by (simp add: slice_def Let_def min_def)

lemma render_offers_done:
  assumes "pageState s = Ready" and "data s = Some d" and "status d = ''done''"
  shows "render_offers s =
    DoneView (take 2 (filter (\<lambda>offer. accepted offer) (offers d)))
             (take 1 (filter (\<lambda>offer. \<not> accepted offer) (offers d)))"
  using assms
  by (simp add: render_offers_def is_done_def accepted_shown_def declined_shown_def
      offers_where_def slice_from_0)

text \<open>
  C5, as stated, fails: for a snapshot with status \<open>done\<close> and three accepted offers the
  page shows the first two only; the third is accepted, is in the snapshot, and is not
  in the accepted list of the page.
\<close>

theorem partition_exact_counterexample:
  "status (example_snapshot ''done'' three_accepted) = ''done''
   \<and> render_offers (offers_page_after (example_snapshot ''done'' three_accepted))
       = DoneView [example_offer ''s1'' True (Some 300), example_offer ''s2'' True (Some 450)] []
   \<and> accepted (example_offer ''s3'' True (Some 500))
   \<and> example_offer ''s3'' True (Some 500) \<in> set (offers (example_snapshot ''done'' three_accepted))
   \<and> example_offer ''s3'' True (Some 500)
       \<notin> set (accepted_shown (offers_page_after (example_snapshot ''done'' three_accepted)))"
  by (simp add: offers_defs render_offers_def is_done_def accepted_shown_def declined_shown_def
      offers_where_def slice_def Let_def)

text \<open>
  C5, amended: for every snapshot with status \<open>done\<close> that holds at most two accepted
  offers and at most one declined offer, the accepted list of the page is exactly the
  offers with \<open>accepted = true\<close> and the declined list exactly the offers with
  \<open>accepted = false\<close>, each in the order of the snapshot; the three offers of the
  specification's example are such a snapshot.
\<close>

theorem partition_within_caps:
  assumes "pageState s = Ready" and "data s = Some d" and "status d = ''done''"
    and "length (filter (\<lambda>offer. accepted offer) (offers d)) \<le> 2"
    and "length (filter (\<lambda>offer. \<not> accepted offer) (offers d)) \<le> 1"
  shows "render_offers s =
    DoneView (filter (\<lambda>offer. accepted offer) (offers d))
             (filter (\<lambda>offer. \<not> accepted offer) (offers d))"
  using assms by (simp add: render_offers_done)

theorem partition_within_caps_witness:
  "render_offers (offers_page_after (example_snapshot ''done'' spec_offers))
   = DoneView [example_offer ''s1'' True (Some 300), example_offer ''s3'' True (Some 450)]
              [example_offer ''s2'' False None]"
  using partition_within_caps [of "offers_page_after (example_snapshot ''done'' spec_offers)"
      "example_snapshot ''done'' spec_offers"]
  by (simp add: offers_defs)

text \<open>
  C10: for every snapshot with status \<open>done\<close> the page shows the first two accepted
  offers and the first declined offer of the snapshot, in its order: at most two accepted
  and at most one declined offer, however many the snapshot holds.
\<close>

theorem shown_offers_capped:
  assumes "pageState s = Ready" and "data s = Some d" and "status d = ''done''"
  shows "\<exists>acc dec. render_offers s = DoneView acc dec
    \<and> acc = take 2 (filter (\<lambda>offer. accepted offer) (offers d))
    \<and> dec = take 1 (filter (\<lambda>offer. \<not> accepted offer) (offers d))
    \<and> length acc \<le> 2 \<and> length dec \<le> 1"
  using assms by (simp add: render_offers_done)

theorem shown_offers_capped_witness:
  "render_offers (offers_page_after (example_snapshot ''done'' five_offers))
   = DoneView [example_offer ''s2'' True (Some 300), example_offer ''s3'' True (Some 450)]
              [example_offer ''s1'' False None]"
  using shown_offers_capped [of "offers_page_after (example_snapshot ''done'' five_offers)"
      "example_snapshot ''done'' five_offers"]
  by (simp add: offers_defs)

text \<open>
  C7: two calls of \<open>fetchOffers\<close> in a row that both return a pending snapshot leave the
  page as the second call alone would, so with the same snapshot as one call does. The
  page stage is \<open>Ready\<close> after the first call and after the second, the page shows the
  "calls still in progress" card both times, and the snapshot it holds is each time the
  one the service returned.
\<close>

theorem fetchOffers_pending_idempotent:
  assumes "truthy (jobParam s)"
    and "getToken first = Inr token1" and "fetch first = Inr res1" and "ok res1"
    and "body_json res1 = Inr snapshot1" and "status snapshot1 = ''pending''"
    and "getToken second = Inr token2" and "fetch second = Inr res2" and "ok res2"
    and "body_json res2 = Inr snapshot2" and "status snapshot2 = ''pending''"
  shows "fetchOffers second (fetchOffers first s) = fetchOffers second s
    \<and> fetchOffers first (fetchOffers first s) = fetchOffers first s
    \<and> pageState (fetchOffers first s) = Ready
    \<and> pageState (fetchOffers second (fetchOffers first s)) = Ready
    \<and> render_offers (fetchOffers first s) = InProgressView
    \<and> render_offers (fetchOffers second (fetchOffers first s)) = InProgressView
    \<and> data (fetchOffers first s) = Some snapshot1
    \<and> data (fetchOffers second (fetchOffers first s)) = Some snapshot2"
  using assms
  by (simp add: fetchOffers_def fetchOffers_try_def render_offers_def is_done_def)

theorem fetchOffers_pending_idempotent_witness:
  "truthy (jobParam (initialOffersContent (Some ''j1'') :: real OffersContent))
   \<and> fetchOffers (replies 200 [] (Inr (example_snapshot ''pending'' [])))
       (fetchOffers (replies 200 [] (Inr (example_snapshot ''pending'' [])))
          (initialOffersContent (Some ''j1'')))
     = fetchOffers (replies 200 [] (Inr (example_snapshot ''pending'' [])))
         (initialOffersContent (Some ''j1''))
   \<and> map_option offers
       (data (fetchOffers (replies 200 [] (Inr (example_snapshot ''pending'' [])))
          (initialOffersContent (Some ''j1'')))) = Some []"
  using fetchOffers_pending_idempotent [of "initialOffersContent (Some ''j1'')"
      "replies 200 [] (Inr (example_snapshot ''pending'' []))" None
      "\<lparr>status_code = 200, body_text = Inr [], body_json = Inr (example_snapshot ''pending'' [])\<rparr>"
      "example_snapshot ''pending'' []"
      "replies 200 [] (Inr (example_snapshot ''pending'' []))" None
      "\<lparr>status_code = 200, body_text = Inr [], body_json = Inr (example_snapshot ''pending'' [])\<rparr>"
      "example_snapshot ''pending'' []"]
  by (simp add: example_snapshot_def replies_def initialOffersContent_def ok_def)

end
